theory Spec2Isabelle
  imports Main
begin

section \<open>JavaScript values\<close>

text \<open>
  A Number is represented by the text that \<^verbatim>\<open>String\<close> gives for it (\<^verbatim>\<open>5\<close>, \<^verbatim>\<open>0.5\<close>, \<^verbatim>\<open>1e+21\<close>,
  \<^verbatim>\<open>NaN\<close>, \<^verbatim>\<open>-Infinity\<close>). The text determines the number up to the sign of zero, which
  nothing in the client observes.
\<close>

datatype number = Number (number_text: string)

text \<open>
  The values the client handles as \<^verbatim>\<open>any\<close>: request bodies, query-parameter values, parsed
  response payloads and thrown values. Strings are well-formed text (no unpaired
  surrogates), as the bytes of its UTF-8 form. An object is a plain object (its prototype
  is \<^verbatim>\<open>Object.prototype\<close>), given by the list of its own properties in enumeration order,
  with distinct string keys and data values.
\<close>

datatype jsval =
    JUndefined
  | JNull
  | JBool bool
  | JNum number
  | JStr string
  | JArr "jsval list"
  | JObj "(string \<times> jsval) list"

text \<open>Truthiness (\<^verbatim>\<open>if (v)\<close>, \<^verbatim>\<open>v && ...\<close>, \<^verbatim>\<open>v || ...\<close>).\<close>

fun truthy :: "jsval \<Rightarrow> bool" where
  "truthy JUndefined = False"
| "truthy JNull = False"
| "truthy (JBool b) = b"
| "truthy (JNum n) = (number_text n \<noteq> ''0'' \<and> number_text n \<noteq> ''NaN'')"
| "truthy (JStr s) = (s \<noteq> [])"
| "truthy (JArr xs) = True"
| "truthy (JObj ps) = True"

text \<open>\<^verbatim>\<open>typeof v\<close>; \<^verbatim>\<open>typeof null\<close> is \<^verbatim>\<open>"object"\<close>.\<close>

fun typeof :: "jsval \<Rightarrow> string" where
  "typeof JUndefined = ''undefined''"
| "typeof JNull = ''object''"
| "typeof (JBool b) = ''boolean''"
| "typeof (JNum n) = ''number''"
| "typeof (JStr s) = ''string''"
| "typeof (JArr xs) = ''object''"
| "typeof (JObj ps) = ''object''"

text \<open>A primitive value: a string, a number or a boolean.\<close>

fun primitive :: "jsval \<Rightarrow> bool" where
  "primitive (JBool b) = True"
| "primitive (JNum n) = True"
| "primitive (JStr s) = True"
| "primitive v = False"

text \<open>\<^verbatim>\<open>a || b\<close> and \<^verbatim>\<open>a ?? b\<close>.\<close>

definition js_or :: "jsval \<Rightarrow> jsval \<Rightarrow> jsval" where
  "js_or a b = (if truthy a then a else b)"

definition nullish :: "jsval \<Rightarrow> jsval \<Rightarrow> jsval" where
  "nullish a b = (if a = JNull \<or> a = JUndefined then b else a)"

text \<open>\<^verbatim>\<open>v?.name\<close>: \<^verbatim>\<open>undefined\<close> on null and undefined, the property otherwise
  (none of the prototypes of the modelled values has a property \<^verbatim>\<open>message\<close>).\<close>

definition optional_member :: "jsval \<Rightarrow> string \<Rightarrow> jsval" where
  "optional_member v name =
     (case v of
        JObj props \<Rightarrow> (case map_of props name of Some x \<Rightarrow> x | None \<Rightarrow> JUndefined)
      | _ \<Rightarrow> JUndefined)"

text \<open>\<^verbatim>\<open>Array.prototype.join\<close> on strings.\<close>

fun join :: "string \<Rightarrow> string list \<Rightarrow> string" where
  "join sep [] = []"
| "join sep [x] = x"
| "join sep (x # y # ys) = x @ sep @ join sep (y # ys)"

text \<open>
  A fault is what a \<^verbatim>\<open>throw\<close> or a rejected promise carries: any value thrown by the code of
  an interceptor or of the transport, or a \<^verbatim>\<open>TypeError\<close> that the language raises itself.
  The wording of the message of such a \<^verbatim>\<open>TypeError\<close> is the engine's.
\<close>

datatype native_error = CannotReadProperty jsval string | CannotConvertToPrimitive

datatype fault = Thrown jsval | TypeError native_error

text \<open>
  \<^verbatim>\<open>String(v)\<close>. On a plain object the conversion calls \<^verbatim>\<open>toString\<close>, which is
  \<^verbatim>\<open>Object.prototype.toString\<close> unless the object has an own property of that name; an own
  property holds data and cannot be called, \<^verbatim>\<open>valueOf\<close> does not give a primitive either, and
  the conversion raises a \<^verbatim>\<open>TypeError\<close>. On an array it joins the conversions of the
  elements, with the empty text for \<^verbatim>\<open>null\<close> and \<^verbatim>\<open>undefined\<close>.
\<close>

fun ToString :: "jsval \<Rightarrow> fault + string"
  and ToStrings :: "jsval list \<Rightarrow> fault + string list" where
  "ToString JUndefined = Inr ''undefined''"
| "ToString JNull = Inr ''null''"
| "ToString (JBool b) = Inr (if b then ''true'' else ''false'')"
| "ToString (JNum n) = Inr (number_text n)"
| "ToString (JStr s) = Inr s"
| "ToString (JArr xs) = (case ToStrings xs of Inl err \<Rightarrow> Inl err | Inr ss \<Rightarrow> Inr (join '','' ss))"
| "ToString (JObj ps) =
     (if map_of ps ''toString'' = None then Inr ''[object Object]''
      else Inl (TypeError CannotConvertToPrimitive))"
| "ToStrings [] = Inr []"
| "ToStrings (x # xs) =
     (case (if x = JNull \<or> x = JUndefined then Inr [] else ToString x) of
        Inl err \<Rightarrow> Inl err
      | Inr s \<Rightarrow> (case ToStrings xs of Inl err \<Rightarrow> Inl err | Inr ss \<Rightarrow> Inr (s # ss)))"

text \<open>A path parameter is a string or a number; \<^verbatim>\<open>String\<close> of it raises nothing.\<close>

datatype path_value = PathString string | PathNumber number

fun String_of :: "path_value \<Rightarrow> string" where
  "String_of (PathString s) = s"
| "String_of (PathNumber n) = number_text n"

section \<open>Library functions used by the URL builder\<close>

text \<open>
  \<^verbatim>\<open>encodeURIComponent\<close>: the unreserved characters are kept, every other byte of the
  UTF-8 form becomes \<^verbatim>\<open>%HH\<close> with upper-case hexadecimal digits. The function raises a
  \<^verbatim>\<open>URIError\<close> on an unpaired surrogate only, which the strings modelled here do not have.
\<close>

definition uri_unreserved :: "char \<Rightarrow> bool" where
  "uri_unreserved c =
     (c \<in> set ''ABCDEFGHIJKLMNOPQRSTUVWXYZabcdefghijklmnopqrstuvwxyz0123456789-_.!~*()''
      \<or> c = CHR 0x27)"

definition hex_digit :: "nat \<Rightarrow> char" where
  "hex_digit n = ''0123456789ABCDEF'' ! n"

definition percent_encode :: "char \<Rightarrow> string" where
  "percent_encode c =
     [CHR ''%'', hex_digit ((of_char c :: nat) div 16), hex_digit ((of_char c :: nat) mod 16)]"

definition encodeURIComponent :: "string \<Rightarrow> string" where
  "encodeURIComponent s =
     concat (map (\<lambda>c. if uri_unreserved c then [c] else percent_encode c) s)"

text \<open>
  \<^verbatim>\<open>String.prototype.replace(pattern, replacement)\<close> with a string pattern: the first
  occurrence of the pattern is replaced, and the replacement text is expanded
  (\<^verbatim>\<open>$$\<close>, \<^verbatim>\<open>$&\<close>, the text before and after the match); other uses of \<^verbatim>\<open>$\<close> stay as they
  are, since a string pattern has no capture groups.
\<close>

fun find_first :: "string \<Rightarrow> string \<Rightarrow> (string \<times> string) option" where
  "find_first pat [] = (if pat = [] then Some ([], []) else None)"
| "find_first pat (c # cs) =
     (if take (length pat) (c # cs) = pat then Some ([], drop (length pat) (c # cs))
      else (case find_first pat cs of
              None \<Rightarrow> None
            | Some (pre, post) \<Rightarrow> Some (c # pre, post)))"

fun get_substitution :: "string \<Rightarrow> string \<Rightarrow> string \<Rightarrow> string \<Rightarrow> string" where
  "get_substitution matched pre post [] = []"
| "get_substitution matched pre post [c] = [c]"
| "get_substitution matched pre post (c # d # r) =
     (if c = CHR ''$'' then
        (if d = CHR ''$'' then CHR ''$'' # get_substitution matched pre post r
         else if d = CHR ''&'' then matched @ get_substitution matched pre post r
         else if d = CHR 0x60 then pre @ get_substitution matched pre post r
         else if d = CHR 0x27 then post @ get_substitution matched pre post r
         else c # get_substitution matched pre post (d # r))
      else c # get_substitution matched pre post (d # r))"

definition js_replace :: "string \<Rightarrow> string \<Rightarrow> string \<Rightarrow> string" where
  "js_replace pat rep s =
     (case find_first pat s of
        None \<Rightarrow> s
      | Some (pre, post) \<Rightarrow> pre @ get_substitution pat pre post rep @ post)"


section \<open>Data model of the client\<close>

datatype HttpMethod = GET | POST | PUT | PATCH | DELETE

fun method_name :: "HttpMethod \<Rightarrow> string" where
  "method_name GET = ''GET''"
| "method_name POST = ''POST''"
| "method_name PUT = ''PUT''"
| "method_name PATCH = ''PATCH''"
| "method_name DELETE = ''DELETE''"

datatype ErrorType = NETWORK_ERROR | TIMEOUT_ERROR | VALIDATION_ERROR | API_ERROR | UNKNOWN_ERROR

datatype details = PayloadDetails jsval | FaultDetails fault

record ApiError =
  err_type :: ErrorType
  err_message :: jsval
  err_status :: "nat option"
  err_details :: "details option"

record ApiResponse =
  success :: bool
  data :: "jsval option"
  error :: "ApiError option"

record RequestConfig =
  url :: string
  req_method :: HttpMethod
  headers :: "string \<rightharpoonup> string"
  body :: jsval

type_synonym RequestInterceptor = "RequestConfig \<Rightarrow> fault + RequestConfig"

type_synonym ResponseInterceptor = "ApiResponse \<Rightarrow> fault + ApiResponse"

record ApiServiceOptions =
  opt_baseURL :: "string option"
  opt_defaultHeaders :: "(string \<rightharpoonup> string) option"
  opt_enableLogging :: "bool option"

record ApiService =
  baseURL :: string
  defaultHeaders :: "string \<rightharpoonup> string"
  enableLogging :: bool
  requestInterceptors :: "RequestInterceptor list"
  responseInterceptors :: "ResponseInterceptor list"

text \<open>The options of one call; \<open>call_body\<close> is \<open>JUndefined\<close> when no body is given.\<close>

record CallOptions =
  call_headers :: "(string \<rightharpoonup> string) option"
  pathParams :: "(string \<times> path_value) list option"
  queryParams :: "(string \<times> jsval) list option"

record RequestOptions = CallOptions +
  call_body :: jsval

section \<open>The transport and the trace of effects\<close>

text \<open>
  The second argument of \<^verbatim>\<open>fetch\<close>, and what \<^verbatim>\<open>fetch\<close> resolves to: the \<^verbatim>\<open>ok\<close> flag, the
  status and the outcomes of \<^verbatim>\<open>response.json()\<close> and \<^verbatim>\<open>response.text()\<close>.
\<close>

record RequestInit =
  init_method :: HttpMethod
  init_headers :: "string \<rightharpoonup> string"
  init_body :: "string option"

record Response =
  resp_ok :: bool
  resp_status :: nat
  resp_json :: "fault + jsval"
  resp_text :: "fault + string"

text \<open>
  What the client takes from its platform: the transport, \<^verbatim>\<open>JSON.stringify\<close>, and the message
  text of the errors that the language raises.
\<close>

record Env =
  fetch :: "string \<Rightarrow> RequestInit \<Rightarrow> fault + Response"
  JSON_stringify :: "jsval \<Rightarrow> fault + string"
  error_message :: "native_error \<Rightarrow> string"

text \<open>
  What a call does besides returning: the lines it writes with \<^verbatim>\<open>console.log\<close> (the
  message only) and its invocations of the transport, in order.
\<close>

datatype event = ConsoleLog string | FetchCall string RequestInit

fun is_fetch :: "event \<Rightarrow> bool" where
  "is_fetch (FetchCall u i) = True"
| "is_fetch (ConsoleLog m) = False"

section \<open>The client\<close>

definition new_ApiService :: "ApiServiceOptions \<Rightarrow> ApiService" where
  "new_ApiService options =
     \<lparr> baseURL = (case opt_baseURL options of Some b \<Rightarrow> b | None \<Rightarrow> []),
       defaultHeaders =
         (case opt_defaultHeaders options of
            Some h \<Rightarrow> h
          | None \<Rightarrow> [''Content-Type'' \<mapsto> ''application/json'']),
       enableLogging = (case opt_enableLogging options of Some l \<Rightarrow> l | None \<Rightarrow> True),
       requestInterceptors = [],
       responseInterceptors = [] \<rparr>"

definition log :: "ApiService \<Rightarrow> string \<Rightarrow> event list" where
  "log svc message =
     (if enableLogging svc then [ConsoleLog (''[ApiService] '' @ message)] else [])"

text \<open>The loop over \<^verbatim>\<open>Object.keys(pathParams)\<close>.\<close>

fun replacePathParams :: "(string \<times> path_value) list \<Rightarrow> string \<Rightarrow> string" where
  "replacePathParams [] u = u"
| "replacePathParams ((key, v) # rest) u =
     replacePathParams rest (js_replace (CHR '':'' # key) (encodeURIComponent (String_of v)) u)"

text \<open>One entry of the query mapping, and the \<^verbatim>\<open>map\<close> over the entries: the first fault ends it.\<close>

fun query_pair :: "string \<times> jsval \<Rightarrow> fault + string" where
  "query_pair (k, v) =
     (case ToString v of
        Inl err \<Rightarrow> Inl err
      | Inr s \<Rightarrow> Inr (encodeURIComponent k @ ''='' @ encodeURIComponent s))"

fun query_pairs :: "(string \<times> jsval) list \<Rightarrow> fault + string list" where
  "query_pairs [] = Inr []"
| "query_pairs (kv # rest) =
     (case query_pair kv of
        Inl err \<Rightarrow> Inl err
      | Inr p \<Rightarrow> (case query_pairs rest of Inl err \<Rightarrow> Inl err | Inr ps \<Rightarrow> Inr (p # ps)))"

text \<open>Lines 53 to 59: the address after the path parameters have been replaced.\<close>

definition path_url :: "ApiService \<Rightarrow> string \<Rightarrow> (string \<times> path_value) list option \<Rightarrow> string" where
  "path_url svc endpoint pathPs =
     (case pathPs of
        None \<Rightarrow> baseURL svc @ endpoint
      | Some pp \<Rightarrow> replacePathParams pp (baseURL svc @ endpoint))"

definition buildUrl ::
  "ApiService \<Rightarrow> string \<Rightarrow> (string \<times> path_value) list option \<Rightarrow> (string \<times> jsval) list option
     \<Rightarrow> fault + string" where
  "buildUrl svc endpoint pathPs queryPs =
     (let u = path_url svc endpoint pathPs
      in case queryPs of
           None \<Rightarrow> Inr u
         | Some qp \<Rightarrow>
             (case query_pairs qp of
                Inl err \<Rightarrow> Inl err
              | Inr ps \<Rightarrow>
                  (let query = join ''&'' ps
                   in if query \<noteq> [] then Inr (u @ ''?'' @ query) else Inr u)))"

definition validateRequestBody :: "ApiService \<Rightarrow> jsval \<Rightarrow> bool \<times> event list" where
  "validateRequestBody svc b =
     (if b = JNull \<or> b = JUndefined then (True, [])
      else if typeof b = ''object'' then (True, [])
      else (False, log svc ''Invalid request body''))"

fun runRequestInterceptors :: "RequestInterceptor list \<Rightarrow> RequestConfig \<Rightarrow> fault + RequestConfig" where
  "runRequestInterceptors [] config = Inr config"
| "runRequestInterceptors (interceptor # rest) config =
     (case interceptor config of
        Inl err \<Rightarrow> Inl err
      | Inr updatedConfig \<Rightarrow> runRequestInterceptors rest updatedConfig)"

fun runResponseInterceptors :: "ResponseInterceptor list \<Rightarrow> ApiResponse \<Rightarrow> fault + ApiResponse" where
  "runResponseInterceptors [] response = Inr response"
| "runResponseInterceptors (interceptor # rest) response =
     (case interceptor response of
        Inl err \<Rightarrow> Inl err
      | Inr updatedResponse \<Rightarrow> runResponseInterceptors rest updatedResponse)"

definition addRequestInterceptor :: "ApiService \<Rightarrow> RequestInterceptor \<Rightarrow> ApiService" where
  "addRequestInterceptor svc interceptor =
     svc\<lparr>requestInterceptors := requestInterceptors svc @ [interceptor]\<rparr>"

definition addResponseInterceptor :: "ApiService \<Rightarrow> ResponseInterceptor \<Rightarrow> ApiService" where
  "addResponseInterceptor svc interceptor =
     svc\<lparr>responseInterceptors := responseInterceptors svc @ [interceptor]\<rparr>"

definition setDefaultHeader :: "ApiService \<Rightarrow> string \<Rightarrow> string \<Rightarrow> ApiService" where
  "setDefaultHeader svc key v = svc\<lparr>defaultHeaders := (defaultHeaders svc)(key \<mapsto> v)\<rparr>"

subsection \<open>The envelopes the request operation builds\<close>

definition invalid_body_response :: ApiResponse where
  "invalid_body_response =
     \<lparr> success = False, data = None,
       error = Some \<lparr> err_type = VALIDATION_ERROR, err_message = JStr ''Invalid request body'',
                      err_status = None, err_details = None \<rparr> \<rparr>"

definition stringify_error_response :: "fault \<Rightarrow> ApiResponse" where
  "stringify_error_response err =
     \<lparr> success = False, data = None,
       error = Some \<lparr> err_type = VALIDATION_ERROR,
                      err_message = JStr ''Failed to stringify request body'',
                      err_status = None, err_details = Some (FaultDetails err) \<rparr> \<rparr>"

text \<open>Lines 150 to 163: the envelope for a transport result and its payload.\<close>

definition classify_response :: "Response \<Rightarrow> jsval \<Rightarrow> ApiResponse" where
  "classify_response response responseData =
     (if \<not> resp_ok response then
        \<lparr> success = False, data = None,
          error = Some \<lparr> err_type = API_ERROR,
                         err_message = js_or (optional_member responseData ''message'')
                                             (JStr ''Request failed''),
                         err_status = Some (resp_status response),
                         err_details = Some (PayloadDetails responseData) \<rparr> \<rparr>
      else \<lparr> success = True, data = Some responseData, error = None \<rparr>)"

text \<open>
  Line 172: the handler reads \<^verbatim>\<open>err.message\<close>. Reading a property of \<^verbatim>\<open>null\<close> or \<^verbatim>\<open>undefined\<close>
  raises a \<^verbatim>\<open>TypeError\<close>; any other value has the property or gives \<^verbatim>\<open>undefined\<close>.
\<close>

fun read_message :: "Env \<Rightarrow> fault \<Rightarrow> fault + jsval" where
  "read_message env (Thrown JNull) = Inl (TypeError (CannotReadProperty JNull ''message''))"
| "read_message env (Thrown JUndefined) = Inl (TypeError (CannotReadProperty JUndefined ''message''))"
| "read_message env (Thrown v) = Inr (optional_member v ''message'')"
| "read_message env (TypeError n) = Inr (JStr (error_message env n))"

text \<open>Lines 168 to 175: the envelope the catch handler builds, given the message it has read.\<close>

definition network_error_response :: "fault \<Rightarrow> jsval \<Rightarrow> ApiResponse" where
  "network_error_response err msg =
     \<lparr> success = False, data = None,
       error = Some \<lparr> err_type = NETWORK_ERROR,
                      err_message = nullish msg (JStr ''Network error''),
                      err_status = None, err_details = Some (FaultDetails err) \<rparr> \<rparr>"

subsection \<open>The request operation\<close>

text \<open>Lines 111 and 120: the configuration handed to the request interceptors.\<close>

definition initial_config :: "ApiService \<Rightarrow> HttpMethod \<Rightarrow> string \<Rightarrow> RequestOptions \<Rightarrow> RequestConfig" where
  "initial_config svc m u options =
     \<lparr> url = u,
       req_method = m,
       headers = defaultHeaders svc ++ (case call_headers options of Some h \<Rightarrow> h | None \<Rightarrow> Map.empty),
       body = call_body options \<rparr>"

text \<open>Lines 125 to 134: the body of the transport call; a fault of \<^verbatim>\<open>JSON.stringify\<close> is \<open>Inl\<close>.\<close>

definition serialize_body :: "Env \<Rightarrow> RequestConfig \<Rightarrow> fault + string option" where
  "serialize_body env config =
     (if truthy (body config) then
        (case JSON_stringify env (body config) of Inl err \<Rightarrow> Inl err | Inr s \<Rightarrow> Inr (Some s))
      else Inr None)"

definition fetch_options :: "RequestConfig \<Rightarrow> string option \<Rightarrow> RequestInit" where
  "fetch_options config b =
     \<lparr> init_method = req_method config, init_headers = headers config, init_body = b \<rparr>"

text \<open>Lines 140 to 146: the payload, as JSON or else as text.\<close>

definition read_payload :: "ApiService \<Rightarrow> Response \<Rightarrow> (fault + jsval) \<times> event list" where
  "read_payload svc response =
     (case resp_json response of
        Inr v \<Rightarrow> (Inr v, [])
      | Inl e \<Rightarrow>
          (case resp_text response of
             Inr t \<Rightarrow> (Inr (JStr t), log svc ''Response not JSON, returning raw text'')
           | Inl err \<Rightarrow> (Inl err, log svc ''Response not JSON, returning raw text'')))"

text \<open>The arrows of the two log lines, as UTF-8.\<close>

definition arrow_right :: string where
  "arrow_right = [CHR 0xE2, CHR 0x86, CHR 0x92]"

definition arrow_left :: string where
  "arrow_left = [CHR 0xE2, CHR 0x86, CHR 0x90]"

text \<open>
  The \<^verbatim>\<open>try\<close> block of \<^verbatim>\<open>request\<close> (lines 110 to 165): \<open>Inr\<close> is a value it returns, \<open>Inl\<close> a
  fault raised inside it, in both cases with the effects up to that point.
\<close>

definition request_try ::
  "Env \<Rightarrow> ApiService \<Rightarrow> HttpMethod \<Rightarrow> string \<Rightarrow> RequestOptions
     \<Rightarrow> (fault + ApiResponse) \<times> event list" where
  "request_try env svc m endpoint options =
     (case buildUrl svc endpoint (pathParams options) (queryParams options) of
        Inl err \<Rightarrow> (Inl err, [])
      | Inr u \<Rightarrow>
     (if truthy (call_body options) \<and> \<not> fst (validateRequestBody svc (call_body options))
      then (Inr invalid_body_response, snd (validateRequestBody svc (call_body options)))
      else
        (case runRequestInterceptors (requestInterceptors svc) (initial_config svc m u options) of
           Inl err \<Rightarrow> (Inl err, [])
         | Inr config \<Rightarrow>
             (case serialize_body env config of
                Inl err \<Rightarrow> (Inr (stringify_error_response err), [])
              | Inr b \<Rightarrow>
                  (let sent = log svc (''Request '' @ arrow_right @ '' '' @ method_name (req_method config)
                                         @ '' '' @ url config)
                              @ [FetchCall (url config) (fetch_options config b)]
                   in case fetch env (url config) (fetch_options config b) of
                        Inl err \<Rightarrow> (Inl err, sent)
                      | Inr response \<Rightarrow>
                          (case read_payload svc response of
                             (Inl err, evs) \<Rightarrow> (Inl err, sent @ evs)
                           | (Inr responseData, evs) \<Rightarrow>
                               (runResponseInterceptors (responseInterceptors svc)
                                  (classify_response response responseData),
                                sent @ evs
                                @ log svc (''Response '' @ arrow_left @ '' ''
                                            @ method_name (req_method config) @ '' '' @ url config))))))))"

text \<open>
  \<^verbatim>\<open>request\<close>: the \<^verbatim>\<open>try\<close> block and its \<^verbatim>\<open>catch\<close> handler (lines 166 to 177). The handler logs,
  reads the message of what it caught, builds the envelope and runs the response
  interceptors on it, outside the \<^verbatim>\<open>try\<close> block. \<open>Inl\<close> is a fault that reaches the caller.
\<close>

definition request ::
  "Env \<Rightarrow> ApiService \<Rightarrow> HttpMethod \<Rightarrow> string \<Rightarrow> RequestOptions
     \<Rightarrow> (fault + ApiResponse) \<times> event list" where
  "request env svc m endpoint options =
     (case request_try env svc m endpoint options of
        (Inr response, evs) \<Rightarrow> (Inr response, evs)
      | (Inl err, evs) \<Rightarrow>
          (case read_message env err of
             Inl raised \<Rightarrow> (Inl raised, evs @ log svc ''Network error'')
           | Inr msg \<Rightarrow>
               (runResponseInterceptors (responseInterceptors svc) (network_error_response err msg),
                evs @ log svc ''Network error'')))"

definition with_body :: "CallOptions \<Rightarrow> jsval \<Rightarrow> RequestOptions" where
  "with_body options b =
     \<lparr> call_headers = call_headers options, pathParams = pathParams options,
       queryParams = queryParams options, call_body = b \<rparr>"

definition get :: "Env \<Rightarrow> ApiService \<Rightarrow> string \<Rightarrow> CallOptions \<Rightarrow> (fault + ApiResponse) \<times> event list" where
  "get env svc endpoint options = request env svc GET endpoint (with_body options JUndefined)"

definition post :: "Env \<Rightarrow> ApiService \<Rightarrow> string \<Rightarrow> jsval \<Rightarrow> CallOptions \<Rightarrow> (fault + ApiResponse) \<times> event list" where
  "post env svc endpoint b options = request env svc POST endpoint (with_body options b)"

definition put :: "Env \<Rightarrow> ApiService \<Rightarrow> string \<Rightarrow> jsval \<Rightarrow> CallOptions \<Rightarrow> (fault + ApiResponse) \<times> event list" where
  "put env svc endpoint b options = request env svc PUT endpoint (with_body options b)"

definition patch :: "Env \<Rightarrow> ApiService \<Rightarrow> string \<Rightarrow> jsval \<Rightarrow> CallOptions \<Rightarrow> (fault + ApiResponse) \<times> event list" where
  "patch env svc endpoint b options = request env svc PATCH endpoint (with_body options b)"

definition delete :: "Env \<Rightarrow> ApiService \<Rightarrow> string \<Rightarrow> CallOptions \<Rightarrow> (fault + ApiResponse) \<times> event list" where
  "delete env svc endpoint options = request env svc DELETE endpoint (with_body options JUndefined)"


section \<open>Notions used in the statements\<close>

text \<open>The \<^verbatim>\<open>message\<close> property of a payload, when the payload is an object that has one.\<close>

definition message_field :: "jsval \<Rightarrow> jsval option" where
  "message_field payload = (case payload of JObj props \<Rightarrow> map_of props ''message'' | _ \<Rightarrow> None)"

text \<open>
  The invariant of an envelope: \<open>success\<close> is true exactly when \<open>error\<close> is absent, and
  exactly one of \<open>data\<close> and \<open>error\<close> is set.
\<close>

definition envelope_ok :: "ApiResponse \<Rightarrow> bool" where
  "envelope_ok r = ((success r = (error r = None)) \<and> ((data r \<noteq> None) \<noteq> (error r \<noteq> None)))"

text \<open>
  The interceptor contract in the words of the specification: the first transform is
  applied to the input, each result is fed to the next transform in list order, and a
  fault ends the chain.
\<close>

definition apply_in_order :: "('a \<Rightarrow> fault + 'a) list \<Rightarrow> 'a \<Rightarrow> fault + 'a" where
  "apply_in_order ts x = foldl (\<lambda>acc t. case acc of Inl e \<Rightarrow> Inl e | Inr y \<Rightarrow> t y) (Inr x) ts"

definition result_error_type :: "fault + ApiResponse \<Rightarrow> ErrorType option" where
  "result_error_type res = (case res of Inl e \<Rightarrow> None | Inr r \<Rightarrow> map_option err_type (error r))"

section \<open>Concrete services, transports and interceptors\<close>

definition no_options :: CallOptions where
  "no_options = \<lparr> call_headers = None, pathParams = None, queryParams = None \<rparr>"

definition plain_call :: RequestOptions where
  "plain_call = with_body no_options JUndefined"

definition svc0 :: ApiService where
  "svc0 = new_ApiService \<lparr> opt_baseURL = None, opt_defaultHeaders = None, opt_enableLogging = None \<rparr>"

text \<open>Thrown values: two error objects, a string, and \<^verbatim>\<open>undefined\<close> (as \<^verbatim>\<open>Promise.reject()\<close> gives).\<close>

definition boom :: fault where
  "boom = Thrown (JObj [(''message'', JStr ''boom'')])"

definition refused :: fault where
  "refused = Thrown (JObj [(''name'', JStr ''TypeError''), (''message'', JStr ''fetch failed'')])"

definition thrown_text :: fault where
  "thrown_text = Thrown (JStr ''stop'')"

definition thrown_undefined :: fault where
  "thrown_undefined = Thrown JUndefined"

definition user_payload :: jsval where
  "user_payload = JObj [(''id'', JNum (Number ''1''))]"

definition ok_response :: Response where
  "ok_response = \<lparr> resp_ok = True, resp_status = 200,
                    resp_json = Inr user_payload, resp_text = Inr ''ignored'' \<rparr>"

definition bad_token_payload :: jsval where
  "bad_token_payload = JObj [(''message'', JStr ''bad token'')]"

definition unauthorized_response :: Response where
  "unauthorized_response = \<lparr> resp_ok = False, resp_status = 401,
                              resp_json = Inr bad_token_payload, resp_text = Inr ''ignored'' \<rparr>"

definition empty_message_payload :: jsval where
  "empty_message_payload = JObj [(''message'', JStr [])]"

text \<open>An object whose own \<^verbatim>\<open>toString\<close> is the number 1: \<^verbatim>\<open>String\<close> of it raises.\<close>

definition unprintable :: jsval where
  "unprintable = JObj [(''toString'', JNum (Number ''1''))]"

text \<open>The message texts of one engine.\<close>

fun engine_text :: "native_error \<Rightarrow> string" where
  "engine_text CannotConvertToPrimitive = ''Cannot convert object to primitive value''"
| "engine_text (CannotReadProperty v name) =
     ''Cannot read properties of '' @ (if v = JNull then ''null'' else ''undefined'')
       @ '' (reading '' @ [CHR 0x27] @ name @ [CHR 0x27] @ '')''"

text \<open>\<^verbatim>\<open>JSON.stringify\<close> on the empty object, the only body that the examples serialize.\<close>

definition stringify_empty :: "jsval \<Rightarrow> fault + string" where
  "stringify_empty v = Inr ''{}''"

definition env_up :: Env where
  "env_up = \<lparr> fetch = (\<lambda>u i. Inr ok_response), JSON_stringify = stringify_empty,
               error_message = engine_text \<rparr>"

definition env_down :: Env where
  "env_down = \<lparr> fetch = (\<lambda>u i. Inl refused), JSON_stringify = stringify_empty,
                 error_message = engine_text \<rparr>"

definition failing_request_interceptor :: RequestInterceptor where
  "failing_request_interceptor config = Inl boom"

definition failing_response_interceptor :: ResponseInterceptor where
  "failing_response_interceptor r = Inl boom"

text \<open>A response interceptor that faults on success envelopes only.\<close>

definition picky_response_interceptor :: ResponseInterceptor where
  "picky_response_interceptor r = (if success r then Inl boom else Inr r)"

text \<open>A response interceptor that rejects with \<^verbatim>\<open>undefined\<close> on success envelopes only.\<close>

definition rejecting_response_interceptor :: ResponseInterceptor where
  "rejecting_response_interceptor r = (if success r then Inl thrown_undefined else Inr r)"

text \<open>A response interceptor that replaces every error envelope by an empty success.\<close>

definition fallback_response_interceptor :: ResponseInterceptor where
  "fallback_response_interceptor r =
     (if success r then Inr r else Inr \<lparr> success = True, data = Some JNull, error = None \<rparr>)"

definition add_version :: RequestInterceptor where
  "add_version config = Inr (config\<lparr>url := url config @ ''/v1''\<rparr>)"

definition add_slash :: RequestInterceptor where
  "add_slash config = Inr (config\<lparr>url := url config @ ''/''\<rparr>)"

definition users_config :: RequestConfig where
  "users_config = \<lparr> url = ''/users'', req_method = GET, headers = Map.empty, body = JUndefined \<rparr>"

definition svc_failing_request :: ApiService where
  "svc_failing_request = addRequestInterceptor svc0 failing_request_interceptor"

definition svc_failing_response :: ApiService where
  "svc_failing_response = addResponseInterceptor svc0 failing_response_interceptor"

definition svc_picky :: ApiService where
  "svc_picky = addResponseInterceptor svc0 picky_response_interceptor"

definition svc_rejecting :: ApiService where
  "svc_rejecting = addResponseInterceptor svc0 rejecting_response_interceptor"

definition svc_fallback :: ApiService where
  "svc_fallback = addResponseInterceptor svc0 fallback_response_interceptor"

definition svc_failing_request_picky :: ApiService where
  "svc_failing_request_picky = addResponseInterceptor svc_failing_request picky_response_interceptor"

section \<open>Unfolding rules for the concrete examples\<close>

lemmas example_defs = no_options_def plain_call_def svc0_def boom_def refused_def thrown_text_def
  thrown_undefined_def user_payload_def ok_response_def bad_token_payload_def
  unauthorized_response_def empty_message_payload_def unprintable_def stringify_empty_def
  env_up_def env_down_def failing_request_interceptor_def failing_response_interceptor_def
  picky_response_interceptor_def rejecting_response_interceptor_def
  fallback_response_interceptor_def add_version_def add_slash_def
  users_config_def svc_failing_request_def svc_failing_response_def svc_picky_def
  svc_rejecting_def svc_fallback_def svc_failing_request_picky_def
  new_ApiService_def addRequestInterceptor_def addResponseInterceptor_def

lemmas pipeline_defs = request_def request_try_def get_def post_def with_body_def initial_config_def
  validateRequestBody_def serialize_body_def fetch_options_def read_payload_def
  classify_response_def network_error_response_def invalid_body_response_def log_def
  nullish_def js_or_def optional_member_def buildUrl_def path_url_def


section \<open>Facts about the library functions\<close>





















section \<open>Facts about the URL builder\<close>


text \<open>The pairs of a query are those of its entries, one for one and in order.\<close>

lemma query_pairs_sound:
  "query_pairs qp = Inr ps \<Longrightarrow> list_all2 (\<lambda>kv p. query_pair kv = Inr p) qp ps"
  by (induction qp arbitrary: ps) (auto split: sum.splits simp del: query_pair.simps)

lemma query_pairs_complete:
  "list_all2 (\<lambda>kv p. query_pair kv = Inr p) qp ps \<Longrightarrow> query_pairs qp = Inr ps"
  by (induction rule: list_all2_induct) (simp_all del: query_pair.simps)

lemma query_pairs_Inr:
  "(query_pairs qp = Inr ps) = list_all2 (\<lambda>kv p. query_pair kv = Inr p) qp ps"
  using query_pairs_sound query_pairs_complete by blast









section \<open>Facts about the interceptor chains\<close>

lemma run_request_append:
  "runRequestInterceptors (ts @ [t]) config =
     (case runRequestInterceptors ts config of Inl e \<Rightarrow> Inl e | Inr c \<Rightarrow> t c)"
  by (induction ts arbitrary: config) (auto split: sum.splits)

lemma run_response_append:
  "runResponseInterceptors (ts @ [t]) r =
     (case runResponseInterceptors ts r of Inl e \<Rightarrow> Inl e | Inr c \<Rightarrow> t c)"
  by (induction ts arbitrary: r) (auto split: sum.splits)

lemma apply_in_order_snoc:
  "apply_in_order (ts @ [t]) x = (case apply_in_order ts x of Inl e \<Rightarrow> Inl e | Inr y \<Rightarrow> t y)"
  by (simp add: apply_in_order_def)

lemma run_request_in_order: "runRequestInterceptors ts config = apply_in_order ts config"
proof (induction ts rule: rev_induct)
  case Nil
  show ?case by (simp add: apply_in_order_def)
next
  case (snoc t ts)
  then show ?case by (simp only: run_request_append apply_in_order_snoc)
qed

lemma run_response_in_order: "runResponseInterceptors ts r = apply_in_order ts r"
proof (induction ts rule: rev_induct)
  case Nil
  show ?case by (simp add: apply_in_order_def)
next
  case (snoc t ts)
  then show ?case by (simp only: run_response_append apply_in_order_snoc)
qed

lemma run_request_total:
  "runRequestInterceptors (map (\<lambda>f c. Inr (f c)) fs) config = Inr (foldl (\<lambda>c f. f c) config fs)"
  by (induction fs arbitrary: config) auto

lemma run_response_total:
  "runResponseInterceptors (map (\<lambda>f c. Inr (f c)) fs) r = Inr (foldl (\<lambda>c f. f c) r fs)"
  by (induction fs arbitrary: r) auto

text \<open>Interceptors that return an envelope as it is leave it to the caller.\<close>

lemma run_response_unchanged:
  "\<forall>i \<in> set ris. i r = Inr r \<Longrightarrow> runResponseInterceptors ris r = Inr r"
  by (induction ris) auto

lemma registered_request:
  "requestInterceptors (foldl addRequestInterceptor svc ts) = requestInterceptors svc @ ts"
  by (induction ts arbitrary: svc) (auto simp: addRequestInterceptor_def)

lemma registered_response:
  "responseInterceptors (foldl addResponseInterceptor svc ts) = responseInterceptors svc @ ts"
  by (induction ts arbitrary: svc) (auto simp: addResponseInterceptor_def)

section \<open>Facts about the request operation\<close>

text \<open>The \<^verbatim>\<open>try\<close> block, phase by phase.\<close>

lemma request_try_url_fault:
  assumes "buildUrl svc endpoint (pathParams options) (queryParams options) = Inl err"
  shows "request_try env svc m endpoint options = (Inl err, [])"
  using assms by (simp add: request_try_def)

lemma request_try_interceptor_fault:
  assumes "buildUrl svc endpoint (pathParams options) (queryParams options) = Inr u"
    and "\<not> (truthy (call_body options) \<and> \<not> fst (validateRequestBody svc (call_body options)))"
    and "runRequestInterceptors (requestInterceptors svc) (initial_config svc m u options) = Inl err"
  shows "request_try env svc m endpoint options = (Inl err, [])"
  using assms by (simp add: request_try_def)

lemma request_try_transport_fault:
  assumes "buildUrl svc endpoint (pathParams options) (queryParams options) = Inr u"
    and "\<not> (truthy (call_body options) \<and> \<not> fst (validateRequestBody svc (call_body options)))"
    and "runRequestInterceptors (requestInterceptors svc) (initial_config svc m u options) = Inr config"
    and "serialize_body env config = Inr b"
    and "fetch env (url config) (fetch_options config b) = Inl err"
  shows "fst (request_try env svc m endpoint options) = Inl err"
    and "filter is_fetch (snd (request_try env svc m endpoint options))
           = [FetchCall (url config) (fetch_options config b)]"
  using assms by (auto simp: request_try_def Let_def log_def)

lemma request_try_classified:
  assumes "buildUrl svc endpoint (pathParams options) (queryParams options) = Inr u"
    and "\<not> (truthy (call_body options) \<and> \<not> fst (validateRequestBody svc (call_body options)))"
    and "runRequestInterceptors (requestInterceptors svc) (initial_config svc m u options) = Inr config"
    and "serialize_body env config = Inr b"
    and "fetch env (url config) (fetch_options config b) = Inr response"
    and "fst (read_payload svc response) = Inr responseData"
  shows "fst (request_try env svc m endpoint options)
           = runResponseInterceptors (responseInterceptors svc) (classify_response response responseData)"
    and "filter is_fetch (snd (request_try env svc m endpoint options))
           = [FetchCall (url config) (fetch_options config b)]"
proof -
  obtain evs where rp: "read_payload svc response = (Inr responseData, evs)"
    using assms(6) by (cases "read_payload svc response") simp
  have nf: "filter is_fetch evs = []"
    using rp by (auto simp: read_payload_def log_def split: sum.splits if_splits)
  show "fst (request_try env svc m endpoint options)
           = runResponseInterceptors (responseInterceptors svc) (classify_response response responseData)"
    using assms(1-5) rp by (auto simp: request_try_def Let_def)
  show "filter is_fetch (snd (request_try env svc m endpoint options))
           = [FetchCall (url config) (fetch_options config b)]"
    using assms(1-5) rp nf by (auto simp: request_try_def Let_def log_def)
qed

text \<open>
  The \<^verbatim>\<open>catch\<close> handler: it can read the message of everything but \<^verbatim>\<open>null\<close> and \<^verbatim>\<open>undefined\<close>,
  and then runs the response interceptors on the envelope it builds.
\<close>

lemma read_message_Inr:
  "(\<exists>msg. read_message env err = Inr msg) = (err \<noteq> Thrown JNull \<and> err \<noteq> Thrown JUndefined)"
proof (cases err)
  case (Thrown v)
  then show ?thesis by (cases v) simp_all
next
  case (TypeError n)
  then show ?thesis by simp
qed

lemma read_message_object:
  "read_message env (Thrown (JObj ps)) = Inr (case map_of ps ''message'' of Some x \<Rightarrow> x | None \<Rightarrow> JUndefined)"
  by (simp add: optional_member_def)

lemma request_catch:
  assumes "fst (request_try env svc m endpoint options) = Inl err"
    and "read_message env err = Inr msg"
  shows "fst (request env svc m endpoint options)
     = runResponseInterceptors (responseInterceptors svc) (network_error_response err msg)"
  using assms by (cases "request_try env svc m endpoint options") (simp add: request_def)

lemma request_catch_raises:
  assumes "fst (request_try env svc m endpoint options) = Inl err"
    and "read_message env err = Inl raised"
  shows "fst (request env svc m endpoint options) = Inl raised"
  using assms by (cases "request_try env svc m endpoint options") (simp add: request_def)

lemma request_return:
  "fst (request_try env svc m endpoint options) = Inr r \<Longrightarrow>
   request env svc m endpoint options = request_try env svc m endpoint options"
  by (cases "request_try env svc m endpoint options") (simp add: request_def)

lemma request_fetches:
  "filter is_fetch (snd (request env svc m endpoint options))
     = filter is_fetch (snd (request_try env svc m endpoint options))"
  by (cases "request_try env svc m endpoint options")
     (auto simp: request_def log_def split: sum.splits)

lemma network_error_response_fields:
  "network_error_response err msg =
     \<lparr> success = False, data = None,
       error = Some \<lparr> err_type = NETWORK_ERROR,
                      err_message = (if msg = JNull \<or> msg = JUndefined then JStr ''Network error'' else msg),
                      err_status = None, err_details = Some (FaultDetails err) \<rparr> \<rparr>"
  by (simp add: network_error_response_def nullish_def)

text \<open>A truthy primitive body is rejected once the address is built, before anything else happens.\<close>

lemma truthy_primitive_body_rejected:
  assumes "buildUrl svc endpoint (pathParams options) (queryParams options) = Inr u"
    and "primitive (call_body options)" and "truthy (call_body options)"
  shows "request env svc m endpoint options
           = (Inr invalid_body_response, log svc ''Invalid request body'')"
  using assms
  by (cases "call_body options") (simp_all add: request_def request_try_def validateRequestBody_def)

lemma envelopes_ok:
  "envelope_ok (classify_response response responseData)"
  "envelope_ok invalid_body_response"
  "envelope_ok (stringify_error_response err)"
  "envelope_ok (network_error_response err msg)"
  by (simp_all add: envelope_ok_def classify_response_def invalid_body_response_def
        stringify_error_response_def network_error_response_def)

text \<open>Without response interceptors the \<^verbatim>\<open>try\<close> block returns only envelopes it has built.\<close>

lemma request_try_envelope_ok:
  assumes "responseInterceptors svc = []"
    and "fst (request_try env svc m endpoint options) = Inr r"
  shows "envelope_ok r"
  using assms
  by (auto simp: request_try_def Let_def envelopes_ok split: if_splits sum.splits prod.splits)

section \<open>The claims\<close>

subsection \<open>C1: a fault of a request interceptor\<close>

text \<open>
  C1, as the code has it, for a fault whose message the catch handler can read (every
  thrown value but \<^verbatim>\<open>null\<close> and \<^verbatim>\<open>undefined\<close>). When the address is built, the body passes
  validation and a request interceptor raises the fault, the request is aborted: the
  transport is never invoked, and the catch handler builds a \<open>success = False\<close> envelope of
  type \<open>NETWORK_ERROR\<close> (not \<open>UNKNOWN_ERROR\<close>, which the client never produces) with the
  fault as details and, as message, the fault's message, or \<^verbatim>\<open>"Network error"\<close> when that is
  \<^verbatim>\<open>null\<close> or \<^verbatim>\<open>undefined\<close>. The operation returns what the response-interceptor chain makes
  of that envelope: the envelope itself when every interceptor returns it unchanged.
\<close>

theorem request_interceptor_fault_network_error:
  assumes "buildUrl svc endpoint (pathParams options) (queryParams options) = Inr u"
    and "\<not> (truthy (call_body options) \<and> \<not> fst (validateRequestBody svc (call_body options)))"
    and "runRequestInterceptors (requestInterceptors svc) (initial_config svc m u options) = Inl err"
    and "read_message env err = Inr msg"
  shows "fst (request env svc m endpoint options)
           = runResponseInterceptors (responseInterceptors svc) (network_error_response err msg)
       \<and> network_error_response err msg
           = \<lparr> success = False, data = None,
               error = Some \<lparr> err_type = NETWORK_ERROR,
                   err_message = (if msg = JNull \<or> msg = JUndefined then JStr ''Network error'' else msg),
                   err_status = None, err_details = Some (FaultDetails err) \<rparr> \<rparr>
       \<and> (err = Thrown (JObj props) \<longrightarrow>
             msg = (case map_of props ''message'' of Some x \<Rightarrow> x | None \<Rightarrow> JUndefined))
       \<and> (err = Thrown (JStr text) \<longrightarrow> msg = JUndefined)
       \<and> filter is_fetch (snd (request env svc m endpoint options)) = []
       \<and> ((\<forall>i \<in> set (responseInterceptors svc).
              i (network_error_response err msg) = Inr (network_error_response err msg))
            \<longrightarrow> fst (request env svc m endpoint options) = Inr (network_error_response err msg))"
proof -
  have t: "request_try env svc m endpoint options = (Inl err, [])"
    by (rule request_try_interceptor_fault [OF assms(1-3)])
  then have "fst (request_try env svc m endpoint options) = Inl err" by simp
  moreover have "err = Thrown (JObj props) \<longrightarrow>
      msg = (case map_of props ''message'' of Some x \<Rightarrow> x | None \<Rightarrow> JUndefined)"
    using assms(4) by (auto simp: optional_member_def)
  moreover have "err = Thrown (JStr text) \<longrightarrow> msg = JUndefined"
    using assms(4) by (auto simp: optional_member_def)
  ultimately show ?thesis
    using request_catch [OF _ assms(4)] t
    by (simp add: request_fetches network_error_response_fields run_response_unchanged)
qed

theorem request_interceptor_fault_network_error_witness:
  "buildUrl svc_failing_request_picky ''/users'' (pathParams plain_call) (queryParams plain_call)
      = Inr ''/users''
   \<and> runRequestInterceptors (requestInterceptors svc_failing_request_picky)
      (initial_config svc_failing_request_picky GET ''/users'' plain_call) = Inl boom
   \<and> read_message env_up boom = Inr (JStr ''boom'')
   \<and> responseInterceptors svc_failing_request_picky = [picky_response_interceptor]
   \<and> picky_response_interceptor (network_error_response boom (JStr ''boom''))
       = Inr (network_error_response boom (JStr ''boom''))
   \<and> fst (request env_up svc_failing_request_picky GET ''/users'' plain_call)
       = Inr \<lparr> success = False, data = None,
               error = Some \<lparr> err_type = NETWORK_ERROR, err_message = JStr ''boom'',
                              err_status = None, err_details = Some (FaultDetails boom) \<rparr> \<rparr>
   \<and> filter is_fetch (snd (request env_up svc_failing_request_picky GET ''/users'' plain_call)) = []"
proof -
  have built: "buildUrl svc_failing_request_picky ''/users'' (pathParams plain_call)
      (queryParams plain_call) = Inr ''/users''"
    by (simp add: example_defs with_body_def buildUrl_def path_url_def)
  have valid: "\<not> (truthy (call_body plain_call)
      \<and> \<not> fst (validateRequestBody svc_failing_request_picky (call_body plain_call)))"
    by (simp add: example_defs with_body_def)
  have faulted: "runRequestInterceptors (requestInterceptors svc_failing_request_picky)
      (initial_config svc_failing_request_picky GET ''/users'' plain_call) = Inl boom"
    by (simp add: example_defs)
  have msg: "read_message env_up boom = Inr (JStr ''boom'')"
    by (simp add: boom_def optional_member_def)
  have chain: "responseInterceptors svc_failing_request_picky = [picky_response_interceptor]"
    by (simp add: example_defs)
  have kept: "picky_response_interceptor (network_error_response boom (JStr ''boom''))
      = Inr (network_error_response boom (JStr ''boom''))"
    by (simp add: picky_response_interceptor_def network_error_response_def)
  from request_interceptor_fault_network_error [OF built valid faulted msg]
    built faulted msg chain kept
  show ?thesis by simp
qed

text \<open>
  C1 as stated fails: with one request interceptor that throws an error object with the
  message \<^verbatim>\<open>boom\<close> and no response interceptor, \<^verbatim>\<open>get\<close> returns an envelope of type
  \<open>NETWORK_ERROR\<close>.
\<close>

theorem request_interceptor_fault_not_unknown_error:
  "fst (get env_up svc_failing_request ''/users'' no_options)
     = Inr \<lparr> success = False, data = None,
             error = Some \<lparr> err_type = NETWORK_ERROR, err_message = JStr ''boom'',
                            err_status = None, err_details = Some (FaultDetails boom) \<rparr> \<rparr>
   \<and> result_error_type (fst (get env_up svc_failing_request ''/users'' no_options))
       \<noteq> Some UNKNOWN_ERROR"
  by (simp add: example_defs pipeline_defs result_error_type_def)

subsection \<open>C2: a fault of a response interceptor on the classified envelope\<close>

text \<open>
  C2, as the code has it, for a fault whose message the catch handler can read (every
  thrown value but \<^verbatim>\<open>null\<close> and \<^verbatim>\<open>undefined\<close>). When the transport has returned, its result
  has been classified and the response-interceptor chain raises the fault on the
  classified envelope, the fault is a fault of the \<^verbatim>\<open>try\<close> block: the top-level operation
  catches it, converts it into a \<open>NETWORK_ERROR\<close> envelope and runs the chain on that
  envelope. The caller receives a fault exactly when this run of the chain raises it, and
  receives the error envelope when every interceptor returns it unchanged.
\<close>

theorem first_run_fault_is_converted:
  assumes "buildUrl svc endpoint (pathParams options) (queryParams options) = Inr u"
    and "\<not> (truthy (call_body options) \<and> \<not> fst (validateRequestBody svc (call_body options)))"
    and "runRequestInterceptors (requestInterceptors svc) (initial_config svc m u options) = Inr config"
    and "serialize_body env config = Inr b"
    and "fetch env (url config) (fetch_options config b) = Inr response"
    and "fst (read_payload svc response) = Inr responseData"
    and "runResponseInterceptors (responseInterceptors svc) (classify_response response responseData) = Inl err"
    and "read_message env err = Inr msg"
  shows "fst (request_try env svc m endpoint options) = Inl err
       \<and> fst (request env svc m endpoint options)
           = runResponseInterceptors (responseInterceptors svc) (network_error_response err msg)
       \<and> (fst (request env svc m endpoint options) = Inl f)
           = (runResponseInterceptors (responseInterceptors svc) (network_error_response err msg) = Inl f)
       \<and> network_error_response err msg
           = \<lparr> success = False, data = None,
               error = Some \<lparr> err_type = NETWORK_ERROR,
                   err_message = (if msg = JNull \<or> msg = JUndefined then JStr ''Network error'' else msg),
                   err_status = None, err_details = Some (FaultDetails err) \<rparr> \<rparr>
       \<and> ((\<forall>i \<in> set (responseInterceptors svc).
              i (network_error_response err msg) = Inr (network_error_response err msg))
            \<longrightarrow> fst (request env svc m endpoint options) = Inr (network_error_response err msg))
       \<and> filter is_fetch (snd (request env svc m endpoint options))
           = [FetchCall (url config) (fetch_options config b)]"
proof -
  have caught: "fst (request_try env svc m endpoint options) = Inl err"
    using request_try_classified(1) [OF assms(1-6)] assms(7) by simp
  from request_catch [OF caught assms(8)] caught show ?thesis
    by (simp add: network_error_response_fields request_fetches run_response_unchanged
          request_try_classified(2) [OF assms(1-6)])
qed

theorem first_run_fault_is_converted_witness:
  "runResponseInterceptors (responseInterceptors svc_picky) (classify_response ok_response user_payload)
     = Inl boom
   \<and> read_message env_up boom = Inr (JStr ''boom'')
   \<and> picky_response_interceptor (network_error_response boom (JStr ''boom''))
     = Inr (network_error_response boom (JStr ''boom''))
   \<and> fst (request env_up svc_picky GET ''/users'' plain_call)
     = Inr (network_error_response boom (JStr ''boom''))
   \<and> runResponseInterceptors (responseInterceptors svc_failing_response)
        (classify_response ok_response user_payload) = Inl boom
   \<and> runResponseInterceptors (responseInterceptors svc_failing_response)
        (network_error_response boom (JStr ''boom'')) = Inl boom
   \<and> fst (request env_up svc_failing_response GET ''/users'' plain_call) = Inl boom"
proof -
  let ?c1 = "initial_config svc_picky GET ''/users'' plain_call"
  let ?c2 = "initial_config svc_failing_response GET ''/users'' plain_call"
  have built: "buildUrl s ''/users'' (pathParams plain_call) (queryParams plain_call) = Inr ''/users''"
    if "baseURL s = []" for s
    using that by (simp add: example_defs with_body_def buildUrl_def path_url_def)
  have base: "baseURL svc_picky = []" "baseURL svc_failing_response = []"
    by (simp_all add: example_defs)
  have valid: "\<not> (truthy (call_body plain_call) \<and> \<not> fst (validateRequestBody s (call_body plain_call)))" for s
    by (simp add: example_defs with_body_def)
  have passed: "runRequestInterceptors (requestInterceptors svc_picky) ?c1 = Inr ?c1"
    "runRequestInterceptors (requestInterceptors svc_failing_response) ?c2 = Inr ?c2"
    by (simp_all add: example_defs)
  have no_body: "serialize_body env_up ?c1 = Inr None" "serialize_body env_up ?c2 = Inr None"
    by (simp_all add: example_defs serialize_body_def initial_config_def with_body_def)
  have up: "fetch env_up (url ?c1) (fetch_options ?c1 None) = Inr ok_response"
    "fetch env_up (url ?c2) (fetch_options ?c2 None) = Inr ok_response"
    by (simp_all add: example_defs)
  have payload: "fst (read_payload s ok_response) = Inr user_payload" for s
    by (simp add: example_defs read_payload_def)
  have first1: "runResponseInterceptors (responseInterceptors svc_picky)
      (classify_response ok_response user_payload) = Inl boom"
    by (simp add: example_defs classify_response_def)
  have first2: "runResponseInterceptors (responseInterceptors svc_failing_response)
      (classify_response ok_response user_payload) = Inl boom"
    by (simp add: example_defs)
  have msg: "read_message env_up boom = Inr (JStr ''boom'')"
    by (simp add: boom_def optional_member_def)
  have kept: "picky_response_interceptor (network_error_response boom (JStr ''boom''))
      = Inr (network_error_response boom (JStr ''boom''))"
    by (simp add: picky_response_interceptor_def network_error_response_def)
  have second1: "runResponseInterceptors (responseInterceptors svc_picky)
      (network_error_response boom (JStr ''boom'')) = Inr (network_error_response boom (JStr ''boom''))"
    using kept by (simp add: svc_picky_def svc0_def new_ApiService_def addResponseInterceptor_def)
  have second2: "runResponseInterceptors (responseInterceptors svc_failing_response)
      (network_error_response boom (JStr ''boom'')) = Inl boom"
    by (simp add: example_defs)
  from first_run_fault_is_converted
      [OF built [OF base(1)] valid passed(1) no_body(1) up(1) payload first1 msg]
    first_run_fault_is_converted
      [OF built [OF base(2)] valid passed(2) no_body(2) up(2) payload first2 msg]
    first1 first2 msg kept second1 second2
  show ?thesis by simp
qed

text \<open>
  C2 as stated fails: the transport answers 200, the only response interceptor throws an
  error object on the success envelope, and \<^verbatim>\<open>get\<close> returns an error envelope instead of
  raising.
\<close>

theorem response_interceptor_fault_caught:
  "picky_response_interceptor (classify_response ok_response user_payload) = Inl boom
   \<and> fst (get env_up svc_picky ''/users'' no_options)
     = Inr \<lparr> success = False, data = None,
             error = Some \<lparr> err_type = NETWORK_ERROR, err_message = JStr ''boom'',
                            err_status = None, err_details = Some (FaultDetails boom) \<rparr> \<rparr>"
  by (simp add: example_defs pipeline_defs)

subsection \<open>C3: primitive bodies\<close>

text \<open>
  C3 at a falsy primitive body. \<^verbatim>\<open>post\<close> with the body \<^verbatim>\<open>false\<close> skips the validator, which
  would reject it, invokes the transport once, without a body, and returns the transport's
  success envelope; so it does for \<^verbatim>\<open>0\<close> and for the empty string. The claim asks for a
  \<open>VALIDATION_ERROR\<close> and no transport call, which is what the body \<^verbatim>\<open>true\<close> gets.
\<close>

theorem falsy_primitive_body_reaches_transport:
  "primitive (JBool False)
   \<and> fst (validateRequestBody svc0 (JBool False)) = False
   \<and> fst (post env_up svc0 ''/items'' (JBool False) no_options)
       = Inr \<lparr> success = True, data = Some user_payload, error = None \<rparr>
   \<and> filter is_fetch (snd (post env_up svc0 ''/items'' (JBool False) no_options))
       = [FetchCall ''/items'' \<lparr> init_method = POST,
             init_headers = [''Content-Type'' \<mapsto> ''application/json''], init_body = None \<rparr>]
   \<and> fst (post env_up svc0 ''/items'' (JNum (Number ''0'')) no_options)
       = Inr \<lparr> success = True, data = Some user_payload, error = None \<rparr>
   \<and> fst (post env_up svc0 ''/items'' (JStr []) no_options)
       = Inr \<lparr> success = True, data = Some user_payload, error = None \<rparr>
   \<and> post env_up svc0 ''/items'' (JBool True) no_options
       = (Inr invalid_body_response, [ConsoleLog ''[ApiService] Invalid request body''])"
  by (simp add: example_defs pipeline_defs)

subsection \<open>C4: the response classifier\<close>

text \<open>
  C4, as the code has it. For a transport result whose \<^verbatim>\<open>ok\<close> flag says that the status is
  in 200..299: outside that range the envelope is \<open>success = False\<close> with an \<open>API_ERROR\<close>
  that carries the status, the whole payload as details, and as message the payload's
  \<^verbatim>\<open>message\<close> field when the payload has one and it is truthy, \<^verbatim>\<open>"Request failed"\<close>
  otherwise; inside the range the envelope is \<open>success = True\<close> with the payload as data.
\<close>

theorem classify_response_envelope:
  assumes "resp_ok response = (200 \<le> resp_status response \<and> resp_status response \<le> 299)"
  shows "classify_response response responseData =
     (if resp_status response < 200 \<or> 299 < resp_status response then
        \<lparr> success = False, data = None,
          error = Some \<lparr> err_type = API_ERROR,
                         err_message = (case message_field responseData of
                                          Some msg \<Rightarrow> if truthy msg then msg else JStr ''Request failed''
                                        | None \<Rightarrow> JStr ''Request failed''),
                         err_status = Some (resp_status response),
                         err_details = Some (PayloadDetails responseData) \<rparr> \<rparr>
      else \<lparr> success = True, data = Some responseData, error = None \<rparr>)"
  using assms
  by (auto simp: classify_response_def js_or_def optional_member_def message_field_def
           split: jsval.splits option.splits)

theorem classify_response_envelope_witness:
  "resp_ok unauthorized_response
      = (200 \<le> resp_status unauthorized_response \<and> resp_status unauthorized_response \<le> 299)
   \<and> classify_response unauthorized_response bad_token_payload
      = \<lparr> success = False, data = None,
          error = Some \<lparr> err_type = API_ERROR, err_message = JStr ''bad token'',
                         err_status = Some 401,
                         err_details = Some (PayloadDetails bad_token_payload) \<rparr> \<rparr>
   \<and> resp_ok ok_response = (200 \<le> resp_status ok_response \<and> resp_status ok_response \<le> 299)
   \<and> classify_response ok_response user_payload
      = \<lparr> success = True, data = Some user_payload, error = None \<rparr>"
proof -
  have a: "resp_ok unauthorized_response
      = (200 \<le> resp_status unauthorized_response \<and> resp_status unauthorized_response \<le> 299)"
    by (simp add: example_defs)
  have b: "resp_ok ok_response = (200 \<le> resp_status ok_response \<and> resp_status ok_response \<le> 299)"
    by (simp add: example_defs)
  have c: "message_field bad_token_payload = Some (JStr ''bad token'')"
    by (simp add: message_field_def example_defs)
  have d: "resp_status unauthorized_response = 401" "resp_status ok_response = 200"
    by (simp_all add: example_defs)
  from classify_response_envelope [OF a, of bad_token_payload]
    classify_response_envelope [OF b, of user_payload] a b c d
  show ?thesis by simp
qed

text \<open>
  C4 as stated fails: the payload \<^verbatim>\<open>{message: ""}\<close> has a message field, and the message of
  the error is \<^verbatim>\<open>"Request failed"\<close>, not that field.
\<close>

theorem empty_message_replaced:
  "message_field empty_message_payload = Some (JStr [])
   \<and> map_option err_message (error (classify_response unauthorized_response empty_message_payload))
       = Some (JStr ''Request failed'')"
  by (simp add: example_defs message_field_def classify_response_def js_or_def optional_member_def)

subsection \<open>C5: a fault of the transport\<close>

text \<open>
  C5, as the code has it. When the request reaches the transport and the transport raises
  a fault whose message the catch handler can read (every value but \<^verbatim>\<open>null\<close> and
  \<^verbatim>\<open>undefined\<close>; \<^verbatim>\<open>fetch\<close> rejects with error objects), the handler builds a
  \<open>success = False\<close> envelope of type \<open>NETWORK_ERROR\<close> and the operation returns what the
  response-interceptor chain makes of it: that envelope when every interceptor returns it
  unchanged, and a fault only if an interceptor raises one.
\<close>

theorem transport_fault_network_error:
  assumes "buildUrl svc endpoint (pathParams options) (queryParams options) = Inr u"
    and "\<not> (truthy (call_body options) \<and> \<not> fst (validateRequestBody svc (call_body options)))"
    and "runRequestInterceptors (requestInterceptors svc) (initial_config svc m u options) = Inr config"
    and "serialize_body env config = Inr b"
    and "fetch env (url config) (fetch_options config b) = Inl err"
    and "read_message env err = Inr msg"
  shows "fst (request env svc m endpoint options)
           = runResponseInterceptors (responseInterceptors svc) (network_error_response err msg)
       \<and> success (network_error_response err msg) = False
       \<and> map_option err_type (error (network_error_response err msg)) = Some NETWORK_ERROR
       \<and> network_error_response err msg
           = \<lparr> success = False, data = None,
               error = Some \<lparr> err_type = NETWORK_ERROR,
                   err_message = (if msg = JNull \<or> msg = JUndefined then JStr ''Network error'' else msg),
                   err_status = None, err_details = Some (FaultDetails err) \<rparr> \<rparr>
       \<and> ((\<forall>i \<in> set (responseInterceptors svc).
              i (network_error_response err msg) = Inr (network_error_response err msg))
            \<longrightarrow> fst (request env svc m endpoint options) = Inr (network_error_response err msg))"
  using request_catch [OF request_try_transport_fault(1) [OF assms(1-5)] assms(6)]
  by (simp add: network_error_response_fields run_response_unchanged)

theorem transport_fault_network_error_witness:
  "serialize_body env_down (initial_config svc_picky POST ''/items'' (with_body no_options (JObj [])))
      = Inr (Some ''{}'')
   \<and> fetch env_down ''/items''
      (fetch_options (initial_config svc_picky POST ''/items'' (with_body no_options (JObj [])))
         (Some ''{}'')) = Inl refused
   \<and> read_message env_down refused = Inr (JStr ''fetch failed'')
   \<and> responseInterceptors svc_picky = [picky_response_interceptor]
   \<and> picky_response_interceptor (network_error_response refused (JStr ''fetch failed''))
       = Inr (network_error_response refused (JStr ''fetch failed''))
   \<and> fst (request env_down svc_picky POST ''/items'' (with_body no_options (JObj [])))
       = Inr \<lparr> success = False, data = None,
               error = Some \<lparr> err_type = NETWORK_ERROR, err_message = JStr ''fetch failed'',
                              err_status = None, err_details = Some (FaultDetails refused) \<rparr> \<rparr>"
proof -
  let ?options = "with_body no_options (JObj [])"
  let ?config = "initial_config svc_picky POST ''/items'' ?options"
  have built: "buildUrl svc_picky ''/items'' (pathParams ?options) (queryParams ?options) = Inr ''/items''"
    by (simp add: example_defs with_body_def buildUrl_def path_url_def)
  have valid: "\<not> (truthy (call_body ?options)
      \<and> \<not> fst (validateRequestBody svc_picky (call_body ?options)))"
    by (simp add: with_body_def validateRequestBody_def)
  have passed: "runRequestInterceptors (requestInterceptors svc_picky) ?config = Inr ?config"
    by (simp add: example_defs)
  have sent: "serialize_body env_down ?config = Inr (Some ''{}'')"
    by (simp add: example_defs serialize_body_def initial_config_def with_body_def)
  have down: "fetch env_down (url ?config) (fetch_options ?config (Some ''{}'')) = Inl refused"
    by (simp add: example_defs)
  have u: "url ?config = ''/items''"
    by (simp add: initial_config_def)
  have msg: "read_message env_down refused = Inr (JStr ''fetch failed'')"
    by (simp add: refused_def optional_member_def)
  have chain: "responseInterceptors svc_picky = [picky_response_interceptor]"
    by (simp add: example_defs)
  have kept: "picky_response_interceptor (network_error_response refused (JStr ''fetch failed''))
      = Inr (network_error_response refused (JStr ''fetch failed''))"
    by (simp add: picky_response_interceptor_def network_error_response_def)
  from transport_fault_network_error [OF built valid passed sent down msg] sent down u msg chain kept
  show ?thesis by simp
qed

text \<open>
  C5 as stated fails: the transport raises, the only response interceptor raises nothing
  and turns error envelopes into an empty success, and \<^verbatim>\<open>get\<close> returns \<open>success = True\<close>.
\<close>

theorem transport_fault_rewritten_by_interceptor:
  "fetch env_down ''/users'' (fetch_options (initial_config svc_fallback GET ''/users'' plain_call) None)
     = Inl refused
   \<and> fst (get env_down svc_fallback ''/users'' no_options)
     = Inr \<lparr> success = True, data = Some JNull, error = None \<rparr>"
  by (simp add: example_defs pipeline_defs)

subsection \<open>C6: the order of the interceptors\<close>

text \<open>
  C6. Interceptors registered one after the other on a new client run in that order: the
  chain applies the first to the input and feeds each result to the next (for interceptors
  that raise nothing this is the left fold of function application), and the empty chain
  returns its input. This holds for the request chain and for the response chain.
\<close>

theorem interceptors_run_in_registration_order:
  "runRequestInterceptors (requestInterceptors (foldl addRequestInterceptor (new_ApiService opts) ts)) config
      = apply_in_order ts config
   \<and> runResponseInterceptors (responseInterceptors (foldl addResponseInterceptor (new_ApiService opts) rs)) r
      = apply_in_order rs r
   \<and> runRequestInterceptors (map (\<lambda>f c. Inr (f c)) fs) config = Inr (foldl (\<lambda>c f. f c) config fs)
   \<and> runResponseInterceptors (map (\<lambda>f c. Inr (f c)) gs) r = Inr (foldl (\<lambda>c f. f c) r gs)
   \<and> runRequestInterceptors [] config = Inr config
   \<and> runResponseInterceptors [] r = Inr r"
proof (intro conjI)
  show "runRequestInterceptors (requestInterceptors (foldl addRequestInterceptor (new_ApiService opts) ts)) config
      = apply_in_order ts config"
    by (simp add: registered_request run_request_in_order new_ApiService_def)
  show "runResponseInterceptors (responseInterceptors (foldl addResponseInterceptor (new_ApiService opts) rs)) r
      = apply_in_order rs r"
    by (simp add: registered_response run_response_in_order new_ApiService_def)
  show "runRequestInterceptors (map (\<lambda>f c. Inr (f c)) fs) config = Inr (foldl (\<lambda>c f. f c) config fs)"
    by (rule run_request_total)
  show "runResponseInterceptors (map (\<lambda>f c. Inr (f c)) gs) r = Inr (foldl (\<lambda>c f. f c) r gs)"
    by (rule run_response_total)
qed simp_all

theorem interceptors_run_in_registration_order_witness:
  "runRequestInterceptors
      (requestInterceptors (addRequestInterceptor (addRequestInterceptor svc0 add_version) add_slash))
      users_config
     = Inr (users_config\<lparr>url := ''/users/v1/''\<rparr>)
   \<and> runRequestInterceptors
      (requestInterceptors (addRequestInterceptor (addRequestInterceptor svc0 add_slash) add_version))
      users_config
     = Inr (users_config\<lparr>url := ''/users//v1''\<rparr>)"
proof -
  let ?opts = "\<lparr> opt_baseURL = None, opt_defaultHeaders = None, opt_enableLogging = None \<rparr>"
  have "runRequestInterceptors
      (requestInterceptors (foldl addRequestInterceptor (new_ApiService ?opts) [add_version, add_slash]))
      users_config = apply_in_order [add_version, add_slash] users_config"
    and "runRequestInterceptors
      (requestInterceptors (foldl addRequestInterceptor (new_ApiService ?opts) [add_slash, add_version]))
      users_config = apply_in_order [add_slash, add_version] users_config"
    using interceptors_run_in_registration_order [of ?opts "[add_version, add_slash]" users_config]
      interceptors_run_in_registration_order [of ?opts "[add_slash, add_version]" users_config]
    by blast+
  then show ?thesis
    by (simp add: svc0_def apply_in_order_def add_version_def add_slash_def users_config_def)
qed

subsection \<open>C7: the query string\<close>




subsection \<open>C8: the envelopes satisfy the invariant\<close>

text \<open>
  C8. The envelope of the response classifier, the two validation envelopes and the
  envelope of the catch handler satisfy the invariant: \<open>success\<close> is true exactly when
  \<open>error\<close> is absent, and exactly one of \<open>data\<close> and \<open>error\<close> is set. So does every envelope
  that the request operation returns when no response interceptor is registered.
\<close>

theorem produced_envelopes_well_formed:
  "envelope_ok (classify_response response responseData)
   \<and> envelope_ok invalid_body_response
   \<and> envelope_ok (stringify_error_response err)
   \<and> envelope_ok (network_error_response err msg)
   \<and> (responseInterceptors svc = [] \<and> fst (request env svc m endpoint options) = Inr r
        \<longrightarrow> envelope_ok r)
   \<and> envelope_ok e = ((success e = (error e = None))
        \<and> (if success e then error e = None \<and> data e \<noteq> None else data e = None \<and> error e \<noteq> None))"
proof (intro conjI impI)
  show "envelope_ok r"
    if h: "responseInterceptors svc = [] \<and> fst (request env svc m endpoint options) = Inr r"
  proof (cases "fst (request_try env svc m endpoint options)")
    case (Inl caught)
    show ?thesis
    proof (cases "read_message env caught")
      case (Inl raised)
      from request_catch_raises [OF \<open>fst (request_try env svc m endpoint options) = Inl caught\<close> Inl] h
      show ?thesis by simp
    next
      case (Inr msg')
      from request_catch [OF \<open>fst (request_try env svc m endpoint options) = Inl caught\<close> Inr] h
      show ?thesis by (auto simp: envelopes_ok)
    qed
  next
    case (Inr r')
    from request_return [OF Inr] request_try_envelope_ok [of svc env m endpoint options r'] Inr h
    show ?thesis by simp
  qed
  show "envelope_ok e = ((success e = (error e = None))
        \<and> (if success e then error e = None \<and> data e \<noteq> None else data e = None \<and> error e \<noteq> None))"
    by (auto simp: envelope_ok_def)
qed (simp_all add: envelopes_ok)

theorem produced_envelopes_well_formed_witness:
  "responseInterceptors svc0 = []
   \<and> fst (request env_up svc0 GET ''/users'' plain_call)
       = Inr \<lparr> success = True, data = Some user_payload, error = None \<rparr>
   \<and> envelope_ok \<lparr> success = True, data = Some user_payload, error = None \<rparr>
   \<and> envelope_ok (classify_response unauthorized_response bad_token_payload)
   \<and> \<not> envelope_ok \<lparr> success = True, data = None, error = None \<rparr>"
proof -
  have none: "responseInterceptors svc0 = []"
    by (simp add: example_defs)
  have ret: "fst (request env_up svc0 GET ''/users'' plain_call)
       = Inr \<lparr> success = True, data = Some user_payload, error = None \<rparr>"
    by (simp add: example_defs pipeline_defs)
  from produced_envelopes_well_formed
    [of unauthorized_response bad_token_payload boom JNull svc0 env_up GET "''/users''" plain_call
        "\<lparr> success = True, data = Some user_payload, error = None \<rparr>"] none ret
  show ?thesis by (simp add: envelope_ok_def)
qed

subsection \<open>C9: the substitution of path parameters\<close>




subsection \<open>C10: a response interceptor that faults on the first run\<close>

text \<open>
  C10 at a fault that is \<^verbatim>\<open>undefined\<close>. The transport answers 200 and the only response
  interceptor rejects with \<^verbatim>\<open>undefined\<close> on the success envelope, and with nothing on an
  error envelope. The catch handler reads \<^verbatim>\<open>err.message\<close> of what it caught, which raises a
  \<^verbatim>\<open>TypeError\<close>: no envelope is built, the chain is not run again, and \<^verbatim>\<open>get\<close> raises that
  \<^verbatim>\<open>TypeError\<close> to its caller. The claim asks for a \<open>NETWORK_ERROR\<close> envelope and a second
  run of the chain, which is what a fault other than \<^verbatim>\<open>null\<close> and \<^verbatim>\<open>undefined\<close> gets.
\<close>

theorem undefined_fault_escapes_handler:
  "runResponseInterceptors (responseInterceptors svc_rejecting)
       (classify_response ok_response user_payload) = Inl (Thrown JUndefined)
   \<and> read_message env_up (Thrown JUndefined)
       = Inl (TypeError (CannotReadProperty JUndefined ''message''))
   \<and> fst (get env_up svc_rejecting ''/users'' no_options)
       = Inl (TypeError (CannotReadProperty JUndefined ''message''))
   \<and> rejecting_response_interceptor (network_error_response (Thrown JUndefined) JUndefined)
       = Inr (network_error_response (Thrown JUndefined) JUndefined)
   \<and> fst (get env_up svc_picky ''/users'' no_options)
       = Inr (network_error_response boom (JStr ''boom''))"
  by (simp add: example_defs pipeline_defs)

end
